theory Spec2Isabelle
  imports Complex_Main "HOL-Library.Word"
begin

unbundle bit_operations_syntax

section \<open>Data model\<close>

text \<open>
  The program under study is \<^verbatim>\<open>src/app.py\<close>, a FastAPI service with one function that
  sniffs a file type (\<^verbatim>\<open>detect_file_type\<close>), one that writes a copy to disk
  (\<^verbatim>\<open>save_temp_file\<close>) and one request handler (\<^verbatim>\<open>process_document\<close>).

  A Python \<^verbatim>\<open>str\<close> is a sequence of Unicode code points and is modelled as a list of
  naturals; a Python \<^verbatim>\<open>bytes\<close> object is a list of 8-bit words. String literals of the
  source are written \<open>str ''...''\<close>. Console output (\<^verbatim>\<open>print\<close>) is write-only and is not
  part of the model.
\<close>

type_synonym byte = "8 word"
type_synonym bytes = "byte list"
type_synonym pystr = "nat list"

definition str :: "string \<Rightarrow> pystr" where
  "str s = map of_char s"

text \<open>A \<^verbatim>\<open>bytes\<close> literal of ASCII characters, \<^verbatim>\<open>b'...'\<close>.\<close>

definition bytes_of :: "string \<Rightarrow> bytes" where
  "bytes_of s = map of_char s"

datatype exn = ValueError | IndexError

text \<open>\<^verbatim>\<open>xs.startswith(p)\<close>, for \<^verbatim>\<open>str\<close> and for \<^verbatim>\<open>bytes\<close>.\<close>

definition startswith :: "'a list \<Rightarrow> 'a list \<Rightarrow> bool" where
  "startswith xs p = (take (length p) xs = p)"

text \<open>\<^verbatim>\<open>s.split(sep)\<close> for a separator of one character: always at least one piece.\<close>

fun split_on :: "'a \<Rightarrow> 'a list \<Rightarrow> 'a list list" where
  "split_on sep [] = [[]]"
| "split_on sep (x # xs) =
     (if x = sep then [] # split_on sep xs
      else (case split_on sep xs of
              [] \<Rightarrow> [[x]]
            | p # ps \<Rightarrow> (x # p) # ps))"

text \<open>\<^verbatim>\<open>s.split(sep, 1)\<close>: cut at the first separator only.\<close>

definition split1 :: "'a \<Rightarrow> 'a list \<Rightarrow> 'a list list" where
  "split1 sep xs =
     (if sep \<in> set xs
      then [takeWhile (\<lambda>x. x \<noteq> sep) xs, tl (dropWhile (\<lambda>x. x \<noteq> sep) xs)]
      else [xs])"

text \<open>Tuple unpacking \<^verbatim>\<open>a, b = xs\<close> raises \<^verbatim>\<open>ValueError\<close> unless there are two items.\<close>

definition unpack2 :: "'a list \<Rightarrow> exn + 'a \<times> 'a" where
  "unpack2 xs = (case xs of [a, b] \<Rightarrow> Inr (a, b) | _ \<Rightarrow> Inl ValueError)"

text \<open>\<^verbatim>\<open>xs[i]\<close>: a negative index counts from the end, out of range raises.\<close>

definition item :: "'a list \<Rightarrow> int \<Rightarrow> exn + 'a" where
  "item xs i =
     (if 0 \<le> i \<and> i < int (length xs) then Inr (xs ! nat i)
      else if i < 0 \<and> - int (length xs) \<le> i then Inr (xs ! nat (int (length xs) + i))
      else Inl IndexError)"

text \<open>
  A dict display \<^verbatim>\<open>{k1: v1, k2: v2, ...}\<close> stores its entries from left to right; a key
  that is already present keeps its position and takes the later value. Iteration
  follows insertion order.
\<close>

fun dict_set :: "('k \<times> 'v) list \<Rightarrow> 'k \<Rightarrow> 'v \<Rightarrow> ('k \<times> 'v) list" where
  "dict_set [] k v = [(k, v)]"
| "dict_set ((k', v') # kvs) k v =
     (if k' = k then (k', v) # kvs else (k', v') # dict_set kvs k v)"

definition dict_display :: "('k \<times> 'v) list \<Rightarrow> ('k \<times> 'v) list" where
  "dict_display entries = foldl (\<lambda>d (k, v). dict_set d k v) [] entries"

section \<open>Library: \<^verbatim>\<open>base64.b64decode\<close>\<close>

text \<open>
  \<^verbatim>\<open>base64.b64decode(s, validate=...)\<close> of CPython 3.11 to 3.13: a \<^verbatim>\<open>str\<close> argument is
  encoded as ASCII (\<^verbatim>\<open>ValueError\<close> on any other character) and handed to
  \<^verbatim>\<open>binascii.a2b_base64(s, strict_mode=validate)\<close>. That function walks the input
  once, keeping the position in the current group of four (\<open>quad_pos\<close>), the bits left
  over from the previous character (\<open>leftchar\<close>), the number of \<^verbatim>\<open>=\<close> seen in a row
  (\<open>pads\<close>) and whether padding has started. Outside strict mode a character that is
  not in the alphabet is skipped.
\<close>

datatype b64_error =
  NonAscii | LeadingPadding | ExcessData | OnlyBase64 | DiscontinuousPadding
  | InvalidLength | IncorrectPadding

definition b64_value :: "byte \<Rightarrow> byte" where
  "b64_value c =
     (if 0x41 \<le> c \<and> c \<le> 0x5A then c - 0x41
      else if 0x61 \<le> c \<and> c \<le> 0x7A then c - 0x61 + 26
      else if 0x30 \<le> c \<and> c \<le> 0x39 then c - 0x30 + 52
      else if c = 0x2B then 62
      else if c = 0x2F then 63
      else 0xFF)"

fun a2b_loop :: "bool \<Rightarrow> bytes \<Rightarrow> nat \<Rightarrow> byte \<Rightarrow> nat \<Rightarrow> bool \<Rightarrow> bytes \<Rightarrow> b64_error + bytes" where
  "a2b_loop strict [] quad_pos leftchar pads padding_started out =
     (if quad_pos \<noteq> 0
      then (if quad_pos = 1 then Inl InvalidLength else Inl IncorrectPadding)
      else Inr out)"
| "a2b_loop strict (c # rest) quad_pos leftchar pads padding_started out =
     (if c = 0x3D then
        (if 2 \<le> quad_pos then
           (if 4 \<le> quad_pos + (pads + 1)
            then (if strict \<and> rest \<noteq> [] then Inl ExcessData else Inr out)
            else a2b_loop strict rest quad_pos leftchar (pads + 1) True out)
         else a2b_loop strict rest quad_pos leftchar pads True out)
      else if 64 \<le> b64_value c then
        (if strict then Inl OnlyBase64
         else a2b_loop strict rest quad_pos leftchar pads padding_started out)
      else if strict \<and> padding_started then Inl DiscontinuousPadding
      else if quad_pos = 0 then
        a2b_loop strict rest 1 (b64_value c) 0 padding_started out
      else if quad_pos = 1 then
        a2b_loop strict rest 2 (b64_value c AND 0x0F) 0 padding_started
          (out @ [push_bit 2 leftchar OR drop_bit 4 (b64_value c)])
      else if quad_pos = 2 then
        a2b_loop strict rest 3 (b64_value c AND 0x03) 0 padding_started
          (out @ [push_bit 4 leftchar OR drop_bit 2 (b64_value c)])
      else
        a2b_loop strict rest 0 0 0 padding_started
          (out @ [push_bit 6 leftchar OR b64_value c]))"

definition a2b_base64 :: "bytes \<Rightarrow> bool \<Rightarrow> b64_error + bytes" where
  "a2b_base64 data strict_mode =
     (if strict_mode \<and> (case data of [] \<Rightarrow> False | c # _ \<Rightarrow> c = 0x3D) then Inl LeadingPadding
      else a2b_loop strict_mode data 0 0 0 False [])"

definition b64decode :: "pystr \<Rightarrow> bool \<Rightarrow> b64_error + bytes" where
  "b64decode s validate =
     (if list_ex (\<lambda>c. 128 \<le> c) s then Inl NonAscii
      else a2b_base64 (map of_nat s) validate)"

section \<open>Library: \<^verbatim>\<open>bytes.decode('utf-8', errors='ignore')\<close>\<close>

text \<open>
  CPython's UTF-8 decoder reads one sequence at a time. \<open>utf8_step\<close> looks at the
  remaining input (not empty) and returns the code point it decoded, if any, and the
  number of bytes it consumed. A start byte that cannot begin a sequence is an error
  of one byte; a continuation byte that is wrong ends the error just before it; a
  sequence cut short by the end of the input is an error up to the end. With
  \<^verbatim>\<open>errors='ignore'\<close> the bytes of an error are dropped and decoding goes on after them.
  The ranges are those of the decoder: no overlong forms, no surrogates, nothing
  above U+10FFFF.
\<close>

definition is_continuation :: "byte \<Rightarrow> bool" where
  "is_continuation b = (0x80 \<le> b \<and> b < 0xC0)"

definition utf8_step :: "bytes \<Rightarrow> nat option \<times> nat" where
  "utf8_step bs =
     (case bs of
        [] \<Rightarrow> (None, 0)
      | ch # r \<Rightarrow>
          if ch < 0x80 then (Some (unat ch), 1)
          else if ch < 0xC2 then (None, 1)
          else if ch < 0xE0 then
            (case r of
               [] \<Rightarrow> (None, 1)
             | ch2 # _ \<Rightarrow>
                 if \<not> is_continuation ch2 then (None, 1)
                 else (Some (unat ch * 64 + unat ch2 - (0xC0 * 64 + 0x80)), 2))
          else if ch < 0xF0 then
            (case r of
               [] \<Rightarrow> (None, 1)
             | [ch2] \<Rightarrow>
                 if \<not> is_continuation ch2 \<or> (if ch2 < 0xA0 then ch = 0xE0 else ch = 0xED)
                 then (None, 1) else (None, 2)
             | ch2 # ch3 # _ \<Rightarrow>
                 if \<not> is_continuation ch2 then (None, 1)
                 else if ch = 0xE0 \<and> ch2 < 0xA0 then (None, 1)
                 else if ch = 0xED \<and> 0xA0 \<le> ch2 then (None, 1)
                 else if \<not> is_continuation ch3 then (None, 2)
                 else (Some (unat ch * 4096 + unat ch2 * 64 + unat ch3
                             - (0xE0 * 4096 + 0x80 * 64 + 0x80)), 3))
          else if ch < 0xF5 then
            (case r of
               [] \<Rightarrow> (None, 1)
             | [ch2] \<Rightarrow>
                 if \<not> is_continuation ch2 \<or> (if ch2 < 0x90 then ch = 0xF0 else ch = 0xF4)
                 then (None, 1) else (None, 2)
             | [ch2, ch3] \<Rightarrow>
                 if \<not> is_continuation ch2 \<or> (if ch2 < 0x90 then ch = 0xF0 else ch = 0xF4)
                 then (None, 1)
                 else if \<not> is_continuation ch3 then (None, 2) else (None, 3)
             | ch2 # ch3 # ch4 # _ \<Rightarrow>
                 if \<not> is_continuation ch2 then (None, 1)
                 else if ch = 0xF0 \<and> ch2 < 0x90 then (None, 1)
                 else if ch = 0xF4 \<and> 0x90 \<le> ch2 then (None, 1)
                 else if \<not> is_continuation ch3 then (None, 2)
                 else if \<not> is_continuation ch4 then (None, 3)
                 else (Some (unat ch * 262144 + unat ch2 * 4096 + unat ch3 * 64 + unat ch4
                             - (0xF0 * 262144 + 0x80 * 4096 + 0x80 * 64 + 0x80)), 4))
          else (None, 1))"

function utf8_decode_ignore :: "bytes \<Rightarrow> pystr" where
  "utf8_decode_ignore [] = []"
| "utf8_decode_ignore (b # bs) =
     (case utf8_step (b # bs) of
        (out, n) \<Rightarrow>
          (case out of None \<Rightarrow> [] | Some c \<Rightarrow> [c]) @ utf8_decode_ignore (drop n (b # bs)))"
  by pat_completeness auto
termination
  by (relation "measure length")
     (auto simp: utf8_step_def split: if_splits list.splits)

section \<open>\<^verbatim>\<open>detect_file_type\<close> (lines 35 to 107)\<close>

text \<open>
  Lines 47 to 55: the type named in a data-URL header. The body of the inner
  \<^verbatim>\<open>try\<close> either returns a pair or raises; the bare \<^verbatim>\<open>except\<close> then passes.
\<close>

definition data_url_type :: "pystr \<Rightarrow> exn + pystr \<times> pystr" where
  "data_url_type base64_data =
     (case unpack2 (split1 (of_char CHR '','') base64_data) of
        Inl e \<Rightarrow> Inl e
      | Inr (header, data) \<Rightarrow>
          (case item (split_on (of_char CHR '':'') header) 1 of
             Inl e \<Rightarrow> Inl e
           | Inr after_colon \<Rightarrow>
               (case item (split_on (of_char CHR '';'') after_colon) 0 of
                  Inl e \<Rightarrow> Inl e
                | Inr mime_type \<Rightarrow>
                    (if of_char CHR ''/'' \<in> set mime_type
                     then (case item (split_on (of_char CHR ''/'') mime_type) (- 1) of
                             Inl e \<Rightarrow> Inl e
                           | Inr file_extension \<Rightarrow> Inr (mime_type, file_extension))
                     else Inr (mime_type, str ''bin'')))))"

text \<open>
  Lines 58 to 70: the signature table, entry by entry as the dict display lists them.
  The last three keys are the bytes of the three before them, spelled in hex.
\<close>

definition docx_mime :: pystr where
  "docx_mime = str ''application/vnd.openxmlformats-officedocument.wordprocessingml.document''"

definition file_signature_entries :: "(bytes \<times> pystr \<times> pystr) list" where
  "file_signature_entries =
     [([0x89, 0x50, 0x4E, 0x47, 0x0D, 0x0A, 0x1A, 0x0A], (str ''image/png'', str ''png'')),
      ([0xFF, 0xD8, 0xFF], (str ''image/jpeg'', str ''jpg'')),
      ([0x47, 0x49, 0x46, 0x38, 0x37, 0x61], (str ''image/gif'', str ''gif'')),
      ([0x47, 0x49, 0x46, 0x38, 0x39, 0x61], (str ''image/gif'', str ''gif'')),
      ([0x25, 0x50, 0x44, 0x46], (str ''application/pdf'', str ''pdf'')),
      ([0x50, 0x4B, 0x03, 0x04], (str ''application/zip'', str ''zip'')),
      ([0x50, 0x4B, 0x05, 0x06], (str ''application/zip'', str ''zip'')),
      ([0x50, 0x4B, 0x07, 0x08], (str ''application/zip'', str ''zip'')),
      ([0x50, 0x4B, 0x03, 0x04], (docx_mime, str ''docx'')),
      ([0x50, 0x4B, 0x05, 0x06], (docx_mime, str ''docx'')),
      ([0x50, 0x4B, 0x07, 0x08], (docx_mime, str ''docx''))]"

definition file_signatures :: "(bytes \<times> pystr \<times> pystr) list" where
  "file_signatures = dict_display file_signature_entries"

text \<open>Lines 72 to 75: the first signature, in iteration order, that the data starts with.\<close>

fun match_signature :: "bytes \<Rightarrow> (bytes \<times> pystr \<times> pystr) list \<Rightarrow> (pystr \<times> pystr) option" where
  "match_signature decoded_data [] = None"
| "match_signature decoded_data ((signature, r) # rest) =
     (if startswith decoded_data signature then Some r
      else match_signature decoded_data rest)"

text \<open>Lines 78 to 98: the text heuristic; \<open>None\<close> when control falls out of it.\<close>

definition text_type :: "bytes \<Rightarrow> (pystr \<times> pystr) option" where
  "text_type decoded_data =
     (if 4 \<le> length decoded_data then
        (let text_start = utf8_decode_ignore (take 100 decoded_data) in
         if startswith text_start (str ''<?xml'') then Some (str ''application/xml'', str ''xml'')
         else if startswith text_start (str ''{'') \<or> startswith text_start (str ''['')
           then Some (str ''application/json'', str ''json'')
         else if startswith text_start (str ''<html'') \<or> startswith text_start (str ''<!DOCTYPE'')
           then Some (str ''text/html'', str ''html'')
         else if startswith text_start (str ''<?php'')
           then Some (str ''application/x-httpd-php'', str ''php'')
         else if startswith text_start (str ''#!/'') then Some (str ''text/plain'', str ''txt'')
         else None)
      else None)"

definition generic_binary :: "pystr \<times> pystr" where
  "generic_binary = (str ''application/octet-stream'', str ''bin'')"

text \<open>
  The whole function. The decoding of line 42 runs first, on the argument as it was
  passed; when it raises, the handler of line 104 returns the generic result.
\<close>

definition detect_file_type :: "pystr \<Rightarrow> pystr \<times> pystr" where
  "detect_file_type base64_data =
     (case b64decode base64_data False of
        Inl e \<Rightarrow> generic_binary
      | Inr decoded_data \<Rightarrow>
          (case (if startswith base64_data (str ''data:'')
                 then (case data_url_type base64_data of Inl e \<Rightarrow> None | Inr r \<Rightarrow> Some r)
                 else None) of
             Some r \<Rightarrow> r
           | None \<Rightarrow>
               (case match_signature decoded_data file_signatures of
                  Some r \<Rightarrow> r
                | None \<Rightarrow>
                    (case text_type decoded_data of
                       Some r \<Rightarrow> r
                     | None \<Rightarrow> generic_binary))))"

section \<open>The acceptance table and the verdict (lines 170 to 201)\<close>

text \<open>
  The scores are float literals that the handler only passes on; each is modelled by
  the decimal number it is written as. No arithmetic is done on them.
\<close>

definition accepted_type_entries :: "(pystr \<times> real \<times> pystr) list" where
  "accepted_type_entries =
     [(str ''application/pdf'', (0.95, str ''PDF document - Accepted'')),
      (str ''image/jpeg'', (0.85, str ''JPEG image - Accepted'')),
      (str ''image/png'', (0.85, str ''PNG image - Accepted'')),
      (str ''image/gif'', (0.80, str ''GIF image - Accepted'')),
      (docx_mime, (0.90, str ''DOCX document - Accepted'')),
      (str ''application/msword'', (0.85, str ''DOC document - Accepted'')),
      (str ''application/vnd.openxmlformats-officedocument.spreadsheetml.sheet'',
         (0.90, str ''XLSX spreadsheet - Accepted'')),
      (str ''application/vnd.ms-excel'', (0.85, str ''XLS spreadsheet - Accepted'')),
      (str ''application/vnd.openxmlformats-officedocument.presentationml.presentation'',
         (0.90, str ''PPTX presentation - Accepted'')),
      (str ''application/vnd.ms-powerpoint'', (0.85, str ''PPT presentation - Accepted'')),
      (str ''text/plain'', (0.70, str ''Text file - Accepted'')),
      (str ''application/json'', (0.75, str ''JSON file - Accepted'')),
      (str ''application/xml'', (0.75, str ''XML file - Accepted'')),
      (str ''text/html'', (0.70, str ''HTML file - Accepted'')),
      (str ''text/csv'', (0.75, str ''CSV file - Accepted''))]"

definition accepted_types :: "(pystr \<times> real \<times> pystr) list" where
  "accepted_types = dict_display accepted_type_entries"

text \<open>
  The verdict \<open>(status, confidence_score, reason)\<close> that lines 170 to 201 compute from
  the detected type. The rejection reason is an f-string around the type; the
  character 39 is the apostrophe.
\<close>

definition classify :: "pystr \<Rightarrow> pystr \<times> real \<times> pystr" where
  "classify mime_type =
     (case map_of accepted_types mime_type of
        Some (confidence_score, reason) \<Rightarrow> (str ''accepted'', confidence_score, reason)
      | None \<Rightarrow>
          (str ''rejected'', 0.3,
           str ''File type '' @ [39] @ mime_type @ [39] @ str '' not in accepted list - Rejected''))"

section \<open>\<^verbatim>\<open>save_temp_file\<close> (lines 109 to 133)\<close>

text \<open>
  The identifiers of a request are \<^verbatim>\<open>Union[str, int]\<close>. What the function takes from
  its surroundings is gathered in a record: the formatted time, the fresh UUID, the
  working directory, and whether a path can be created and written. The file system
  is a map from paths to contents, passed in and returned.
\<close>

datatype ident = IdStr pystr | IdInt int

fun decimal :: "nat \<Rightarrow> pystr" where
  "decimal n = (if n < 10 then [48 + n] else decimal (n div 10) @ [48 + n mod 10])"

definition format_ident :: "ident \<Rightarrow> pystr" where
  "format_ident v =
     (case v of
        IdStr s \<Rightarrow> s
      | IdInt i \<Rightarrow> (if i < 0 then 45 # decimal (nat (- i)) else decimal (nat i)))"

datatype os_error = OSError

record environment =
  strftime_now :: pystr
  uuid4 :: pystr
  getcwd :: pystr
  writable :: "pystr \<Rightarrow> bool"

type_synonym filesystem = "pystr \<rightharpoonup> bytes"

text \<open>\<^verbatim>\<open>os.path.join(a, b)\<close> on POSIX.\<close>

definition path_join :: "pystr \<Rightarrow> pystr \<Rightarrow> pystr" where
  "path_join a b =
     (if startswith b (str ''/'') then b
      else if a = [] \<or> startswith (rev a) (str ''/'') then a @ b
      else a @ str ''/'' @ b)"

definition save_temp_file ::
  "environment \<Rightarrow> filesystem \<Rightarrow> bytes \<Rightarrow> ident \<Rightarrow> ident \<Rightarrow> pystr
     \<Rightarrow> (os_error + pystr) \<times> filesystem" where
  "save_temp_file env fs decoded_data rid did file_extension =
     (let timestamp = strftime_now env;
          unique_id = take 8 (uuid4 env);
          filename = str ''record_'' @ format_ident rid @ str ''_doc_'' @ format_ident did
                     @ str ''_'' @ timestamp @ str ''_'' @ unique_id @ str ''.'' @ file_extension;
          temp_dir = path_join (getcwd env) (str ''temp_files'');
          temp_file_path = path_join temp_dir filename
      in if writable env temp_file_path
         then (Inr temp_file_path, fs(temp_file_path \<mapsto> decoded_data))
         else (Inl OSError, fs))"

section \<open>\<^verbatim>\<open>process_document\<close> (lines 139 to 235)\<close>

record document_request =
  record_id :: ident
  document_id :: ident
  base64_data :: pystr

record document_response =
  response_record_id :: ident
  response_document_id :: ident
  status :: pystr
  confidence_score :: real
  reason :: pystr

datatype detail = InvalidBase64 b64_error | EmptyFileData | InternalServerError

datatype http_exception = HTTPException nat detail

text \<open>
  The handler's calls to the detector, to the acceptance table and to
  \<^verbatim>\<open>save_temp_file\<close> are recorded, in order, with their arguments.
\<close>

datatype event =
  DetectCalled pystr
  | LookupCalled pystr
  | SaveCalled bytes ident ident pystr

text \<open>Lines 150 to 152: the payload, with a data-URL prefix cut off.\<close>

definition clean_base64 :: "pystr \<Rightarrow> exn + pystr" where
  "clean_base64 s =
     (if startswith s (str ''data:'') then item (split1 (of_char CHR '','') s) 1 else Inr s)"

text \<open>
  Any exception that is not an \<^verbatim>\<open>HTTPException\<close> becomes status 500 (line 233);
  the two raised on purpose carry status 400 and pass through (line 231).
\<close>

definition process_document ::
  "environment \<Rightarrow> filesystem \<Rightarrow> document_request
     \<Rightarrow> event list \<times> filesystem \<times> (http_exception + document_response)" where
  "process_document env fs request =
     (case clean_base64 (base64_data request) of
        Inl e \<Rightarrow> ([], fs, Inl (HTTPException 500 InternalServerError))
      | Inr payload \<Rightarrow>
          (case b64decode payload True of
             Inl e \<Rightarrow> ([], fs, Inl (HTTPException 400 (InvalidBase64 e)))
           | Inr decoded_data \<Rightarrow>
               if length decoded_data = 0
               then ([], fs, Inl (HTTPException 400 EmptyFileData))
               else
                 (case detect_file_type payload of
                    (mime_type, file_extension) \<Rightarrow>
                      (case classify mime_type of
                         (st, score, why) \<Rightarrow>
                           (let events =
                                  [DetectCalled payload, LookupCalled mime_type,
                                   SaveCalled decoded_data (record_id request)
                                     (document_id request) file_extension]
                            in case save_temp_file env fs decoded_data (record_id request)
                                      (document_id request) file_extension of
                                 (Inl e, fs') \<Rightarrow>
                                   (events, fs', Inl (HTTPException 500 InternalServerError))
                               | (Inr temp_file_path, fs') \<Rightarrow>
                                   (events, fs',
                                    Inr \<lparr>response_record_id = record_id request,
                                         response_document_id = document_id request,
                                         status = st,
                                         confidence_score = score,
                                         reason = why\<rparr>))))))"


section \<open>Example requests and environments\<close>

text \<open>
  Two environments in which every write succeeds, one in which none does, a request
  that carries a small PDF as a data URL, one whose payload has a character outside
  the base64 alphabet, one whose data URL lacks the comma before the payload, and one
  with an empty payload.
\<close>

definition always_writable :: "pystr \<Rightarrow> bool" where
  "always_writable p = True"


definition example_env :: environment where
  "example_env = \<lparr>strftime_now = str ''20250101_120000'',
                   uuid4 = str ''0f8fad5b-d9cb-469f-a165-70867728950e'',
                   getcwd = str ''/srv/app'', writable = always_writable\<rparr>"

definition other_env :: environment where
  "other_env = \<lparr>strftime_now = str ''20261231_235959'',
                 uuid4 = str ''7c9e6679-7425-40de-944b-e07fc1f90ae7'',
                 getcwd = str ''/tmp'', writable = always_writable\<rparr>"


definition pdf_request :: document_request where
  "pdf_request = \<lparr>record_id = IdInt 42, document_id = IdStr (str ''doc-7''),
                   base64_data = str ''data:application/pdf;base64,JVBERi0xLjQ=''\<rparr>"

definition bad_request :: document_request where
  "bad_request = \<lparr>record_id = IdInt 42, document_id = IdStr (str ''doc-7''),
                   base64_data = str ''data:application/pdf;base64,JVBERi0x*jQ=''\<rparr>"

definition nocomma_request :: document_request where
  "nocomma_request = \<lparr>record_id = IdInt 42, document_id = IdStr (str ''doc-7''),
                       base64_data = str ''data:application/pdf;base64JVBERi0xLjQ=''\<rparr>"

definition empty_request :: document_request where
  "empty_request = \<lparr>record_id = IdInt 42, document_id = IdStr (str ''doc-7''),
                     base64_data = []\<rparr>"

definition pdf_response :: document_response where
  "pdf_response = \<lparr>response_record_id = IdInt 42, response_document_id = IdStr (str ''doc-7''),
                    status = str ''accepted'', confidence_score = 0.95,
                    reason = str ''PDF document - Accepted''\<rparr>"

section \<open>Basic facts\<close>

lemma startswith_Nil [simp]: "startswith xs [] = True"
  by (simp add: startswith_def)

lemma startswith_Nil_Cons [simp]: "startswith [] (p # ps) = False"
  by (simp add: startswith_def)

lemma startswith_Cons_Cons [simp]: "startswith (x # xs) (p # ps) = (x = p \<and> startswith xs ps)"
  by (simp add: startswith_def)

lemma startswith_Cons_iff: "startswith d (p # ps) \<longleftrightarrow> (\<exists>r. d = p # r \<and> startswith r ps)"
  by (cases d) auto

lemma startswith_append_iff: "startswith d p \<longleftrightarrow> (\<exists>r. d = p @ r)"
  unfolding startswith_def by (metis append_eq_conv_conj append_take_drop_id)

lemma startswith4D:
  assumes "startswith d [a, b, c, e]"
  obtains r where "d = a # b # c # e # r"
  using assms by (auto simp: startswith_Cons_iff)

lemma str_eq_iff [simp]: "str a = str b \<longleftrightarrow> a = b"
proof -
  have "inj (of_char :: char \<Rightarrow> nat)" by (simp add: inj_def)
  then show ?thesis unfolding str_def by (rule inj_map_eq_map)
qed

lemma str_Nil [simp]: "str [] = []"
  by (simp add: str_def)

lemma str_eq_Nil [simp]: "str a = [] \<longleftrightarrow> a = []"
  by (simp add: str_def)

text \<open>Rules that let the simplifier run the base64 decoder on a literal.\<close>

lemmas b64_eval =
  b64decode_def a2b_base64_def b64_value_def str_def word_le_nat_alt word_less_nat_alt

lemmas url_eval = data_url_type_def split1_def unpack2_def item_def

declare utf8_decode_ignore.simps(2) [simp del]

section \<open>The signature table\<close>

text \<open>
  The dict that the display of lines 58 to 70 builds has eight keys: the three ZIP
  signatures are entered twice, so their first values are overwritten.
\<close>

lemma file_signatures_eq:
  "file_signatures =
     [([0x89, 0x50, 0x4E, 0x47, 0x0D, 0x0A, 0x1A, 0x0A], (str ''image/png'', str ''png'')),
      ([0xFF, 0xD8, 0xFF], (str ''image/jpeg'', str ''jpg'')),
      ([0x47, 0x49, 0x46, 0x38, 0x37, 0x61], (str ''image/gif'', str ''gif'')),
      ([0x47, 0x49, 0x46, 0x38, 0x39, 0x61], (str ''image/gif'', str ''gif'')),
      ([0x25, 0x50, 0x44, 0x46], (str ''application/pdf'', str ''pdf'')),
      ([0x50, 0x4B, 0x03, 0x04], (docx_mime, str ''docx'')),
      ([0x50, 0x4B, 0x05, 0x06], (docx_mime, str ''docx'')),
      ([0x50, 0x4B, 0x07, 0x08], (docx_mime, str ''docx''))]"
  by (simp add: file_signatures_def dict_display_def file_signature_entries_def)

lemma zip_match:
  assumes "startswith d [0x50, 0x4B, 0x03, 0x04] \<or> startswith d [0x50, 0x4B, 0x05, 0x06]
           \<or> startswith d [0x50, 0x4B, 0x07, 0x08]"
  shows "match_signature d file_signatures = Some (docx_mime, str ''docx'')"
proof -
  have "match_signature (0x50 # 0x4B # c # e # r) file_signatures = Some (docx_mime, str ''docx'')"
    if "(c, e) = (0x03, 0x04) \<or> (c, e) = (0x05, 0x06) \<or> (c, e) = (0x07, 0x08)" for c e r
    using that by (auto simp: file_signatures_eq)
  with assms show ?thesis
    by (auto elim!: startswith4D)
qed

lemma pdf_match:
  assumes "startswith d [0x25, 0x50, 0x44, 0x46]"
  shows "match_signature d file_signatures = Some (str ''application/pdf'', str ''pdf'')"
proof -
  from assms obtain r where "d = 0x25 # 0x50 # 0x44 # 0x46 # r" by (rule startswith4D)
  then show ?thesis by (simp add: file_signatures_eq)
qed

text \<open>
  C4. When the argument does not start with \<^verbatim>\<open>data:\<close> and its decoded bytes start with
  one of the ZIP signatures \<^verbatim>\<open>PK\x03\x04\<close>, \<^verbatim>\<open>PK\x05\x06\<close>, \<^verbatim>\<open>PK\x07\x08\<close>, the detector
  returns the wordprocessing type with extension \<^verbatim>\<open>docx\<close>, and so never
  \<^verbatim>\<open>('application/zip', 'zip')\<close>.
\<close>

theorem zip_signature_is_docx:
  assumes "b64decode s False = Inr d"
    and "\<not> startswith s (str ''data:'')"
    and "startswith d [0x50, 0x4B, 0x03, 0x04] \<or> startswith d [0x50, 0x4B, 0x05, 0x06]
           \<or> startswith d [0x50, 0x4B, 0x07, 0x08]"
  shows "detect_file_type s = (docx_mime, str ''docx'')
         \<and> detect_file_type s \<noteq> (str ''application/zip'', str ''zip'')"
  using assms(1,2) zip_match [OF assms(3)] by (simp add: detect_file_type_def docx_mime_def)

text \<open>The base64 text \<^verbatim>\<open>UEsFBnp6\<close> is \<^verbatim>\<open>PK\x05\x06zz\<close>.\<close>

theorem zip_signature_is_docx_witness:
  "b64decode (str ''UEsFBnp6'') False = Inr [0x50, 0x4B, 0x05, 0x06, 0x7A, 0x7A]
   \<and> \<not> startswith (str ''UEsFBnp6'') (str ''data:'')
   \<and> startswith [0x50, 0x4B, 0x05, 0x06, 0x7A, 0x7A] [0x50, 0x4B, 0x05, 0x06 :: byte]
   \<and> detect_file_type (str ''UEsFBnp6'') = (docx_mime, str ''docx'')
   \<and> detect_file_type (str ''UEsFBnp6'') \<noteq> (str ''application/zip'', str ''zip'')"
proof -
  have d: "b64decode (str ''UEsFBnp6'') False = Inr [0x50, 0x4B, 0x05, 0x06, 0x7A, 0x7A]"
    by (simp add: b64_eval)
  have p: "\<not> startswith (str ''UEsFBnp6'') (str ''data:'')"
    by (simp add: str_def)
  have z: "startswith [0x50, 0x4B, 0x05, 0x06, 0x7A, 0x7A] [0x50, 0x4B, 0x03, 0x04 :: byte]
       \<or> startswith [0x50, 0x4B, 0x05, 0x06, 0x7A, 0x7A] [0x50, 0x4B, 0x05, 0x06 :: byte]
       \<or> startswith [0x50, 0x4B, 0x05, 0x06, 0x7A, 0x7A] [0x50, 0x4B, 0x07, 0x08 :: byte]"
    by simp
  from zip_signature_is_docx [OF d p z] d p show ?thesis by simp
qed

text \<open>
  C6. When the argument does not start with \<^verbatim>\<open>data:\<close> and its decoded bytes start with
  \<^verbatim>\<open>%PDF\<close>, the detector returns \<^verbatim>\<open>('application/pdf', 'pdf')\<close>, whatever bytes follow:
  the signature table is consulted before the text heuristic.
\<close>

theorem pdf_signature_first:
  assumes "b64decode s False = Inr d"
    and "\<not> startswith s (str ''data:'')"
    and "startswith d [0x25, 0x50, 0x44, 0x46]"
  shows "detect_file_type s = (str ''application/pdf'', str ''pdf'')"
  using assms(1,2) pdf_match [OF assms(3)] by (simp add: detect_file_type_def)

text \<open>The base64 text \<^verbatim>\<open>JVBERnsiYSI6MX0=\<close> is \<^verbatim>\<open>%PDF{"a":1}\<close>: JSON-looking bytes after the signature.\<close>

theorem pdf_signature_first_witness:
  "b64decode (str ''JVBERnsiYSI6MX0='') False
     = Inr [0x25, 0x50, 0x44, 0x46, 0x7B, 0x22, 0x61, 0x22, 0x3A, 0x31, 0x7D]
   \<and> \<not> startswith (str ''JVBERnsiYSI6MX0='') (str ''data:'')
   \<and> startswith [0x25, 0x50, 0x44, 0x46, 0x7B, 0x22, 0x61, 0x22, 0x3A, 0x31, 0x7D]
        [0x25, 0x50, 0x44, 0x46 :: byte]
   \<and> detect_file_type (str ''JVBERnsiYSI6MX0='') = (str ''application/pdf'', str ''pdf'')"
proof -
  have d: "b64decode (str ''JVBERnsiYSI6MX0='') False
             = Inr [0x25, 0x50, 0x44, 0x46, 0x7B, 0x22, 0x61, 0x22, 0x3A, 0x31, 0x7D]"
    by (simp add: b64_eval)
  have p: "\<not> startswith (str ''JVBERnsiYSI6MX0='') (str ''data:'')"
    by (simp add: str_def)
  have z: "startswith [0x25, 0x50, 0x44, 0x46, 0x7B, 0x22, 0x61, 0x22, 0x3A, 0x31, 0x7D]
             [0x25, 0x50, 0x44, 0x46 :: byte]"
    by simp
  from pdf_signature_first [OF d p z] d p z show ?thesis by simp
qed

section \<open>The acceptance table\<close>

lemma accepted_types_eq: "accepted_types = accepted_type_entries"
  by (simp add: accepted_types_def dict_display_def accepted_type_entries_def docx_mime_def)

lemma accepted_keys_distinct: "distinct (map fst accepted_type_entries)"
  by (simp add: accepted_type_entries_def docx_mime_def)

lemma accepted_lookup_Some:
  "(m, c, r) \<in> set accepted_type_entries \<Longrightarrow> map_of accepted_types m = Some (c, r)"
  by (simp add: accepted_types_eq accepted_keys_distinct)

lemma accepted_lookup_None:
  "map_of accepted_types m = None \<longleftrightarrow> m \<notin> fst ` set accepted_type_entries"
  by (simp add: accepted_types_eq map_of_eq_None_iff)

text \<open>
  C1. For every type \<open>m\<close>, the verdict is \<^verbatim>\<open>accepted\<close> exactly when \<open>m\<close> is a key of the
  acceptance table; then score and reason are the entry of \<open>m\<close>. When \<open>m\<close> is not a key
  the verdict is \<^verbatim>\<open>rejected\<close>, the score 0.3, and the reason
  \<^verbatim>\<open>File type '<m>' not in accepted list - Rejected\<close>.
\<close>

theorem classify_by_table:
  "(fst (classify m) = str ''accepted'' \<longleftrightarrow> m \<in> fst ` set accepted_type_entries)
   \<and> (\<forall>c r. (m, c, r) \<in> set accepted_type_entries \<longrightarrow> classify m = (str ''accepted'', c, r))
   \<and> (m \<notin> fst ` set accepted_type_entries \<longrightarrow>
        classify m = (str ''rejected'', 0.3,
                      str ''File type '' @ [39] @ m @ [39] @ str '' not in accepted list - Rejected''))"
proof (intro conjI allI impI)
  show "fst (classify m) = str ''accepted'' \<longleftrightarrow> m \<in> fst ` set accepted_type_entries"
    using accepted_lookup_None [of m]
    by (cases "map_of accepted_types m") (auto simp: classify_def)
next
  fix c r assume "(m, c, r) \<in> set accepted_type_entries"
  then show "classify m = (str ''accepted'', c, r)"
    by (simp add: classify_def accepted_lookup_Some)
next
  assume "m \<notin> fst ` set accepted_type_entries"
  then have "map_of accepted_types m = None" by (simp add: accepted_lookup_None)
  then show "classify m = (str ''rejected'', 0.3,
                      str ''File type '' @ [39] @ m @ [39] @ str '' not in accepted list - Rejected'')"
    by (simp add: classify_def)
qed

text \<open>The two verdicts that the specification quotes, for PDF and for PHP.\<close>

theorem classify_by_table_witness:
  "(str ''application/pdf'', 0.95, str ''PDF document - Accepted'') \<in> set accepted_type_entries
   \<and> classify (str ''application/pdf'') = (str ''accepted'', 0.95, str ''PDF document - Accepted'')
   \<and> str ''application/x-httpd-php'' \<notin> fst ` set accepted_type_entries
   \<and> classify (str ''application/x-httpd-php'')
       = (str ''rejected'', 0.3,
          str ''File type 'application/x-httpd-php' not in accepted list - Rejected'')"
proof -
  have pdf: "(str ''application/pdf'', 0.95, str ''PDF document - Accepted'')
               \<in> set accepted_type_entries"
    by (simp add: accepted_type_entries_def)
  have php: "str ''application/x-httpd-php'' \<notin> fst ` set accepted_type_entries"
    by (simp add: accepted_type_entries_def docx_mime_def)
  have quoted: "str ''File type '' @ [39] @ str ''application/x-httpd-php'' @ [39]
                  @ str '' not in accepted list - Rejected''
                = str ''File type 'application/x-httpd-php' not in accepted list - Rejected''"
    by (simp add: str_def)
  from classify_by_table [of "str ''application/pdf''"] pdf
  have "classify (str ''application/pdf'') = (str ''accepted'', 0.95, str ''PDF document - Accepted'')"
    by blast
  moreover from classify_by_table [of "str ''application/x-httpd-php''"] php
  have "classify (str ''application/x-httpd-php'')
          = (str ''rejected'', 0.3,
             str ''File type 'application/x-httpd-php' not in accepted list - Rejected'')"
    unfolding quoted [symmetric] by blast
  ultimately show ?thesis using pdf php by simp
qed

section \<open>The UTF-8 decoder keeps every ASCII byte\<close>

lemma utf8_step_ascii: "a < 0x80 \<Longrightarrow> utf8_step (a # ys) = (Some (unat a), 1)"
  by (simp add: utf8_step_def)

lemma utf8_decode_ascii_Cons:
  "a < 0x80 \<Longrightarrow> utf8_decode_ignore (a # ys) = unat a # utf8_decode_ignore ys"
  by (simp add: utf8_decode_ignore.simps(2) utf8_step_ascii)

lemma utf8_step_le: "utf8_step xs = (out, n) \<Longrightarrow> n \<le> length xs"
  by (auto simp: utf8_step_def split: list.splits if_splits)

lemma list_shape4:
  obtains "xs = []" | b where "xs = [b]" | b c where "xs = [b, c]"
  | b c e where "xs = [b, c, e]" | b c e f r where "xs = b # c # e # f # r"
  by (metis list.exhaust)

lemma ascii_not_continuation: "a < 0x80 \<Longrightarrow> \<not> is_continuation a"
  by (auto simp: is_continuation_def)

text \<open>
  An ASCII byte is never taken for a continuation byte, so what the decoder does with
  the bytes before it is the same whether the input ends there or goes on with it.
\<close>

lemma utf8_step_append_ascii:
  assumes "a < 0x80" and "xs \<noteq> []"
  shows "utf8_step (xs @ a # ys) = utf8_step xs"
proof -
  note [simp] = utf8_step_def ascii_not_continuation [OF assms(1)]
  show ?thesis
  proof (cases xs rule: list_shape4)
    case 1 with assms(2) show ?thesis by simp
  next
    case 2 then show ?thesis by (cases ys) (auto split: list.split)
  next
    case 3 then show ?thesis by (cases ys) (auto split: list.split)
  next
    case 4 then show ?thesis by (auto split: list.split)
  next
    case 5 then show ?thesis by (auto split: list.split)
  qed
qed

lemma utf8_decode_append_ascii:
  assumes "a < 0x80"
  shows "utf8_decode_ignore (xs @ a # ys)
         = utf8_decode_ignore xs @ unat a # utf8_decode_ignore ys"
proof (induction xs rule: utf8_decode_ignore.induct)
  case 1
  show ?case using assms by (simp add: utf8_decode_ascii_Cons)
next
  case (2 b bs)
  obtain out n where st: "utf8_step (b # bs) = (out, n)" by (cases "utf8_step (b # bs)")
  then have n: "n \<le> length (b # bs)" by (rule utf8_step_le)
  have st': "utf8_step (b # bs @ a # ys) = (out, n)"
    using utf8_step_append_ascii [OF assms, of "b # bs" ys] st by simp
  have "drop n (b # bs @ a # ys) = drop n (b # bs) @ a # ys"
    using n by (simp add: drop_Cons split: nat.split)
  moreover have "utf8_decode_ignore (drop n (b # bs) @ a # ys)
        = utf8_decode_ignore (drop n (b # bs)) @ unat a # utf8_decode_ignore ys"
    using "2.IH" [OF st [symmetric]] .
  ultimately show ?case using st st' by (simp add: utf8_decode_ignore.simps(2))
qed

lemma utf8_dropped_head:
  assumes "utf8_decode_ignore (b # bs) = []"
  shows "\<not> b < 0x80"
  using assms by (auto simp: utf8_decode_ascii_Cons)

section \<open>The detector\<close>

lemma data_url_no_comma: "of_char CHR '','' \<notin> set s \<Longrightarrow> data_url_type s = Inl ValueError"
  by (simp add: data_url_type_def split1_def unpack2_def)

lemma match_signature_None_iff:
  "match_signature d sigs = None \<longleftrightarrow> list_all (\<lambda>sig. \<not> startswith d sig) (map fst sigs)"
  by (induction sigs) (auto split: if_splits)

lemma file_signature_keys:
  "list_all P (map fst file_signatures) \<longleftrightarrow> list_all P (map fst file_signature_entries)"
  by (auto simp: file_signatures_eq file_signature_entries_def)

lemma no_signature_iff:
  "match_signature d file_signatures = None
   \<longleftrightarrow> list_all (\<lambda>sig. \<not> startswith d sig) (map fst file_signature_entries)"
  by (simp only: match_signature_None_iff file_signature_keys)

lemma match_signature_nonempty:
  "match_signature d file_signatures = Some r \<Longrightarrow> fst r \<noteq> [] \<and> snd r \<noteq> []"
  by (auto simp: file_signatures_eq docx_mime_def split: if_splits)

lemma text_type_nonempty: "text_type d = Some r \<Longrightarrow> fst r \<noteq> [] \<and> snd r \<noteq> []"
  by (auto simp: text_type_def Let_def split: if_splits)

lemma generic_binary_nonempty: "fst generic_binary \<noteq> [] \<and> snd generic_binary \<noteq> []"
  by (simp add: generic_binary_def)

text \<open>
  Without a comma the unpacking of line 49 raises and the header branch is left; the
  result then comes from the signatures, the text heuristic or the fallback.
\<close>

lemma detect_without_data_url:
  assumes "b64decode s False = Inr d"
    and "\<not> (startswith s (str ''data:'') \<and> of_char CHR '','' \<in> set s)"
  shows "detect_file_type s =
           (case match_signature d file_signatures of
              Some r \<Rightarrow> r
            | None \<Rightarrow> (case text_type d of Some r \<Rightarrow> r | None \<Rightarrow> generic_binary))"
  using assms by (auto simp: detect_file_type_def data_url_no_comma)

text \<open>
  The header branch of lines 47 to 53, in closed form: the header is the text before
  the first comma, the type the text between its first colon and the next colon or
  semicolon, the extension the text after the last slash of the type.
\<close>

lemma split_on_nonempty [simp]: "split_on sep xs \<noteq> []"
  by (induction xs) (auto split: list.split)

lemma split_on_Cons_other:
  "x \<noteq> sep \<Longrightarrow> split_on sep (x # xs) = (x # hd (split_on sep xs)) # tl (split_on sep xs)"
  by (cases "split_on sep xs") simp_all

lemma hd_split_on: "hd (split_on sep xs) = takeWhile (\<lambda>x. x \<noteq> sep) xs"
  by (induction xs) (auto split: list.split)

lemma split_on_single: "split_on sep xs = [p] \<longleftrightarrow> sep \<notin> set xs \<and> p = xs"
proof (induction xs arbitrary: p)
  case Nil
  show ?case by auto
next
  case (Cons x xs)
  show ?case
  proof (cases "x = sep")
    case True
    then show ?thesis by simp
  next
    case False
    obtain q qs where q: "split_on sep xs = q # qs"
      by (cases "split_on sep xs") simp_all
    show ?thesis
      using False q Cons.IH [of q] Cons.IH [of xs] by (cases qs) auto
  qed
qed

lemma last_split_on: "last (split_on sep xs) = rev (takeWhile (\<lambda>x. x \<noteq> sep) (rev xs))"
proof (induction xs)
  case Nil
  show ?case by simp
next
  case (Cons x xs)
  show ?case
  proof (cases "x = sep")
    case True
    then show ?thesis using Cons.IH by (simp add: takeWhile_tail)
  next
    case False
    obtain q qs where q: "split_on sep xs = q # qs"
      by (cases "split_on sep xs") simp_all
    show ?thesis
    proof (cases qs)
      case Nil
      with q have "sep \<notin> set xs" "q = xs" by (simp_all add: split_on_single)
      then show ?thesis using False q Nil by (simp add: takeWhile_append)
    next
      case (Cons a as)
      with q have "\<not> (sep \<notin> set xs)" using split_on_single [of sep xs] by auto
      then have "sep \<in> set (rev xs)" by simp
      then have "takeWhile (\<lambda>x. x \<noteq> sep) (rev xs @ [x]) = takeWhile (\<lambda>x. x \<noteq> sep) (rev xs)"
        by (metis (mono_tags, lifting) takeWhile_append1)
      then show ?thesis using False q Cons Cons.IH by simp
    qed
  qed
qed

lemma item_first: "xs \<noteq> [] \<Longrightarrow> item xs 0 = Inr (hd xs)"
  by (cases xs) (simp_all add: item_def)

lemma item_second: "ys \<noteq> [] \<Longrightarrow> item (x # ys) 1 = Inr (hd ys)"
  by (cases ys) (simp_all add: item_def)

lemma item_last: "xs \<noteq> [] \<Longrightarrow> item xs (- 1) = Inr (last xs)"
proof -
  assume ne: "xs \<noteq> []"
  then obtain y ys where xs: "xs = y # ys" by (cases xs) auto
  have "nat (int (length xs) + - 1) = length xs - 1" "- int (length xs) \<le> - 1"
    by (simp_all add: xs)
  then show ?thesis using ne by (simp add: item_def last_conv_nth xs)
qed

lemma data_url_type_header:
  assumes "startswith s (str ''data:'')" and "of_char CHR '','' \<in> set s"
  shows "data_url_type s =
           (let header = takeWhile (\<lambda>c. c \<noteq> of_char CHR '','') s;
                mime_type = takeWhile (\<lambda>c. c \<noteq> of_char CHR '';'')
                              (takeWhile (\<lambda>c. c \<noteq> of_char CHR '':'') (drop 5 header))
            in Inr (mime_type,
                    if of_char CHR ''/'' \<in> set mime_type
                    then rev (takeWhile (\<lambda>c. c \<noteq> of_char CHR ''/'') (rev mime_type))
                    else str ''bin''))"
proof -
  from assms(1) obtain r where s: "s = str ''data:'' @ r"
    by (auto simp: startswith_append_iff)
  define h where "h = takeWhile (\<lambda>c. c \<noteq> of_char CHR '','') r"
  have header: "takeWhile (\<lambda>c. c \<noteq> of_char CHR '','') s = str ''data:'' @ h"
    by (simp add: s h_def str_def)
  have sp: "split_on (of_char CHR '':'') (str ''data:'' @ h)
              = str ''data'' # split_on (of_char CHR '':'') h"
    by (simp add: str_def split_on_Cons_other)
  have second: "item (split_on (of_char CHR '':'') (str ''data:'' @ h)) 1
                  = Inr (takeWhile (\<lambda>c. c \<noteq> of_char CHR '':'') h)"
    unfolding sp by (simp add: item_second hd_split_on)
  have d5: "drop 5 (str ''data:'') = []" "length (str ''data:'') = 5"
    by (simp_all add: str_def)
  show ?thesis
    using assms(2)
    by (simp add: data_url_type_def split1_def unpack2_def header [simplified]
          second [simplified] d5 Let_def item_first item_last hd_split_on last_split_on)
qed

lemma detect_data_url:
  assumes "b64decode s False = Inr d"
    and "startswith s (str ''data:'')" and "of_char CHR '','' \<in> set s"
  shows "detect_file_type s =
           (let header = takeWhile (\<lambda>c. c \<noteq> of_char CHR '','') s;
                mime_type = takeWhile (\<lambda>c. c \<noteq> of_char CHR '';'')
                              (takeWhile (\<lambda>c. c \<noteq> of_char CHR '':'') (drop 5 header))
            in (mime_type,
                if of_char CHR ''/'' \<in> set mime_type
                then rev (takeWhile (\<lambda>c. c \<noteq> of_char CHR ''/'') (rev mime_type))
                else str ''bin''))"
  unfolding detect_file_type_def data_url_type_header [OF assms(2,3)]
  using assms(1,2) by (simp add: Let_def)

text \<open>
  C2, at the input the specification names. The payload \<^verbatim>\<open>iVBORw0KGgo=\<close> alone is valid
  base64 for the PNG signature. Line 42 decodes the whole argument, header included:
  the 19 alphabet characters of \<^verbatim>\<open>data:image/png;base64,\<close> shift the groups of four,
  decoding raises \<^verbatim>\<open>Incorrect padding\<close>, and the handler of line 104 returns the generic
  result before the header is looked at.
\<close>

theorem data_url_png_falls_back:
  "b64decode (str ''iVBORw0KGgo='') True = Inr [0x89, 0x50, 0x4E, 0x47, 0x0D, 0x0A, 0x1A, 0x0A]
   \<and> b64decode (str ''data:image/png;base64,iVBORw0KGgo='') False = Inl IncorrectPadding
   \<and> detect_file_type (str ''data:image/png;base64,iVBORw0KGgo='')
       = (str ''application/octet-stream'', str ''bin'')"
  by (simp add: detect_file_type_def generic_binary_def b64_eval)

text \<open>
  C3, as the code has it. The detector is a total function: every operation in it that
  can raise is caught, and its loops are structural. When decoding the argument fails
  the result is \<^verbatim>\<open>('application/octet-stream', 'bin')\<close>. Type and extension are not empty
  unless the argument starts with \<^verbatim>\<open>data:\<close> and contains a comma; in that case, when the
  argument decodes, both are cut out of the header as it stands.
\<close>

theorem detect_file_type_total:
  "(\<forall>e. b64decode s False = Inl e \<longrightarrow>
        detect_file_type s = (str ''application/octet-stream'', str ''bin''))
   \<and> (\<not> (startswith s (str ''data:'') \<and> of_char CHR '','' \<in> set s)
        \<longrightarrow> fst (detect_file_type s) \<noteq> [] \<and> snd (detect_file_type s) \<noteq> [])
   \<and> ((\<exists>d. b64decode s False = Inr d) \<and> startswith s (str ''data:'')
          \<and> of_char CHR '','' \<in> set s
        \<longrightarrow> detect_file_type s =
              (let header = takeWhile (\<lambda>c. c \<noteq> of_char CHR '','') s;
                   mime_type = takeWhile (\<lambda>c. c \<noteq> of_char CHR '';'')
                                 (takeWhile (\<lambda>c. c \<noteq> of_char CHR '':'') (drop 5 header))
               in (mime_type,
                   if of_char CHR ''/'' \<in> set mime_type
                   then rev (takeWhile (\<lambda>c. c \<noteq> of_char CHR ''/'') (rev mime_type))
                   else str ''bin'')))"
proof (intro conjI allI impI)
  fix e assume "b64decode s False = Inl e"
  then show "detect_file_type s = (str ''application/octet-stream'', str ''bin'')"
    by (simp add: detect_file_type_def generic_binary_def)
next
  assume nd: "\<not> (startswith s (str ''data:'') \<and> of_char CHR '','' \<in> set s)"
  show "fst (detect_file_type s) \<noteq> []"
  proof (cases "b64decode s False")
    case (Inl e)
    then show ?thesis by (simp add: detect_file_type_def generic_binary_def)
  next
    case (Inr d)
    show ?thesis
      unfolding detect_without_data_url [OF Inr nd]
      using match_signature_nonempty [of d] text_type_nonempty [of d] generic_binary_nonempty
      by (auto split: option.split)
  qed
  show "snd (detect_file_type s) \<noteq> []"
  proof (cases "b64decode s False")
    case (Inl e)
    then show ?thesis by (simp add: detect_file_type_def generic_binary_def)
  next
    case (Inr d)
    show ?thesis
      unfolding detect_without_data_url [OF Inr nd]
      using match_signature_nonempty [of d] text_type_nonempty [of d] generic_binary_nonempty
      by (auto split: option.split)
  qed
next
  assume "(\<exists>d. b64decode s False = Inr d) \<and> startswith s (str ''data:'')
          \<and> of_char CHR '','' \<in> set s"
  then obtain d where "b64decode s False = Inr d" "startswith s (str ''data:'')"
    "of_char CHR '','' \<in> set s"
    by blast
  then show "detect_file_type s =
              (let header = takeWhile (\<lambda>c. c \<noteq> of_char CHR '','') s;
                   mime_type = takeWhile (\<lambda>c. c \<noteq> of_char CHR '';'')
                                 (takeWhile (\<lambda>c. c \<noteq> of_char CHR '':'') (drop 5 header))
               in (mime_type,
                   if of_char CHR ''/'' \<in> set mime_type
                   then rev (takeWhile (\<lambda>c. c \<noteq> of_char CHR ''/'') (rev mime_type))
                   else str ''bin''))"
    by (rule detect_data_url)
qed

text \<open>
  \<^verbatim>\<open>A\<close> is not decodable; \<^verbatim>\<open>AAECAwQ=\<close> is the five bytes 0 to 4; the data URL
  \<^verbatim>\<open>data:image/jpeg;base64,/9j/\<close> has 24 alphabet characters in all and decodes.
\<close>

theorem detect_file_type_total_witness:
  "b64decode (str ''A'') False = Inl InvalidLength
   \<and> detect_file_type (str ''A'') = (str ''application/octet-stream'', str ''bin'')
   \<and> \<not> (startswith (str ''AAECAwQ='') (str ''data:'') \<and> of_char CHR '','' \<in> set (str ''AAECAwQ=''))
   \<and> fst (detect_file_type (str ''AAECAwQ='')) \<noteq> []
   \<and> snd (detect_file_type (str ''AAECAwQ='')) \<noteq> []
   \<and> b64decode (str ''data:image/jpeg;base64,/9j/'') False
       = Inr [0x75, 0xAB, 0x5A, 0x8A, 0x66, 0xA0, 0x7B, 0xF8, 0xE9, 0x7A, 0x06, 0xDA, 0xB1, 0xEE,
              0xB8, 0xFF, 0xD8, 0xFF]
   \<and> startswith (str ''data:image/jpeg;base64,/9j/'') (str ''data:'')
   \<and> of_char CHR '','' \<in> set (str ''data:image/jpeg;base64,/9j/'')
   \<and> detect_file_type (str ''data:image/jpeg;base64,/9j/'') = (str ''image/jpeg'', str ''jpeg'')"
proof -
  have a: "b64decode (str ''A'') False = Inl InvalidLength"
    by (simp add: b64_eval)
  have b: "\<not> (startswith (str ''AAECAwQ='') (str ''data:'')
               \<and> of_char CHR '','' \<in> set (str ''AAECAwQ=''))"
    by (simp add: str_def)
  have j: "b64decode (str ''data:image/jpeg;base64,/9j/'') False
       = Inr [0x75, 0xAB, 0x5A, 0x8A, 0x66, 0xA0, 0x7B, 0xF8, 0xE9, 0x7A, 0x06, 0xDA, 0xB1, 0xEE,
              0xB8, 0xFF, 0xD8, 0xFF]"
    by (simp add: b64_eval)
  have p: "startswith (str ''data:image/jpeg;base64,/9j/'') (str ''data:'')"
    by (simp add: str_def)
  have c: "of_char CHR '','' \<in> set (str ''data:image/jpeg;base64,/9j/'')"
    by (simp add: str_def)
  from detect_file_type_total [of "str ''A''"] a
  have one: "detect_file_type (str ''A'') = (str ''application/octet-stream'', str ''bin'')"
    by blast
  from detect_file_type_total [of "str ''AAECAwQ=''"] b
  have two: "fst (detect_file_type (str ''AAECAwQ='')) \<noteq> []
        \<and> snd (detect_file_type (str ''AAECAwQ='')) \<noteq> []"
    by blast
  from j p c have "(\<exists>d. b64decode (str ''data:image/jpeg;base64,/9j/'') False = Inr d)
      \<and> startswith (str ''data:image/jpeg;base64,/9j/'') (str ''data:'')
      \<and> of_char CHR '','' \<in> set (str ''data:image/jpeg;base64,/9j/'')"
    by blast
  with detect_file_type_total [of "str ''data:image/jpeg;base64,/9j/''"]
  have "detect_file_type (str ''data:image/jpeg;base64,/9j/'') =
          (let header = takeWhile (\<lambda>c. c \<noteq> of_char CHR '','') (str ''data:image/jpeg;base64,/9j/'');
               mime_type = takeWhile (\<lambda>c. c \<noteq> of_char CHR '';'')
                             (takeWhile (\<lambda>c. c \<noteq> of_char CHR '':'') (drop 5 header))
           in (mime_type,
               if of_char CHR ''/'' \<in> set mime_type
               then rev (takeWhile (\<lambda>c. c \<noteq> of_char CHR ''/'') (rev mime_type))
               else str ''bin''))"
    by blast
  then have three: "detect_file_type (str ''data:image/jpeg;base64,/9j/'')
                      = (str ''image/jpeg'', str ''jpeg'')"
    by (simp add: str_def)
  show ?thesis
    by (intro conjI a b j p c one two [THEN conjunct1] two [THEN conjunct2] three)
qed

text \<open>
  Against C3 as stated: \<^verbatim>\<open>data:,AAAA\<close> decodes, its header names no type, and the type
  returned is the empty string; \<^verbatim>\<open>data:image/;base64,AAAA\<close> gives an empty extension.
\<close>

theorem empty_mime_counterexample:
  "detect_file_type (str ''data:,AAAA'') = ([], str ''bin'')
   \<and> detect_file_type (str ''data:image/;base64,AAAA'') = (str ''image/'', [])"
  by (simp add: detect_file_type_def b64_eval url_eval)

section \<open>The text heuristic\<close>

lemma utf8_decode_ascii_prefix:
  assumes "list_all (\<lambda>b. b < 0x80) p"
  shows "utf8_decode_ignore (p @ ys) = map unat p @ utf8_decode_ignore ys"
  using assms by (induction p) (simp_all add: utf8_decode_ascii_Cons)

lemma ascii_prefix_decoded:
  assumes "list_all (\<lambda>b. b < 0x80) p" and "startswith d p" and "length p \<le> 100"
  shows "startswith (utf8_decode_ignore (take 100 d)) (map unat p)"
proof -
  from assms(2) obtain r where d: "d = p @ r" by (auto simp: startswith_append_iff)
  have "take 100 d = p @ take (100 - length p) r"
    using assms(3) by (simp add: d)
  then show ?thesis
    by (simp add: utf8_decode_ascii_prefix [OF assms(1)] startswith_append_iff)
qed

lemma utf8_invalid_run: "utf8_decode_ignore (replicate n 0x80) = []"
  by (induction n) (simp_all add: utf8_decode_ignore.simps(2) utf8_step_def)

lemma literal_prefix_decoded:
  assumes "startswith d (bytes_of lit)"
    and "list_all (\<lambda>b. b < 0x80) (bytes_of lit)" and "length lit \<le> 100"
    and "map unat (bytes_of lit) = str lit"
  shows "startswith (utf8_decode_ignore (take 100 d)) (str lit)"
  using ascii_prefix_decoded [OF assms(2) assms(1)] assms(3,4) by (simp add: bytes_of_def)

lemma text_type_by_bytes:
  assumes "4 \<le> length d"
  shows "startswith d (bytes_of ''<?xml'') \<Longrightarrow> text_type d = Some (str ''application/xml'', str ''xml'')"
    and "startswith d (bytes_of ''{'') \<or> startswith d (bytes_of ''['')
         \<Longrightarrow> text_type d = Some (str ''application/json'', str ''json'')"
    and "startswith d (bytes_of ''<html'') \<or> startswith d (bytes_of ''<!DOCTYPE'')
         \<Longrightarrow> text_type d = Some (str ''text/html'', str ''html'')"
    and "startswith d (bytes_of ''<?php'') \<Longrightarrow> text_type d = Some (str ''application/x-httpd-php'', str ''php'')"
    and "startswith d (bytes_of ''#!/'') \<Longrightarrow> text_type d = Some (str ''text/plain'', str ''txt'')"
proof -
  define t where "t = utf8_decode_ignore (take 100 d)"
  have tt: "text_type d =
     (if startswith t (str ''<?xml'') then Some (str ''application/xml'', str ''xml'')
      else if startswith t (str ''{'') \<or> startswith t (str ''['')
        then Some (str ''application/json'', str ''json'')
      else if startswith t (str ''<html'') \<or> startswith t (str ''<!DOCTYPE'')
        then Some (str ''text/html'', str ''html'')
      else if startswith t (str ''<?php'')
        then Some (str ''application/x-httpd-php'', str ''php'')
      else if startswith t (str ''#!/'') then Some (str ''text/plain'', str ''txt'')
      else None)"
    using assms by (simp add: text_type_def t_def Let_def)
  have lift: "startswith t (str lit)"
    if "startswith d (bytes_of lit)" "list_all (\<lambda>b. b < 0x80) (bytes_of lit)"
       "length lit \<le> 100" "map unat (bytes_of lit) = str lit" for lit
    unfolding t_def using that by (rule literal_prefix_decoded)
  show "text_type d = Some (str ''application/xml'', str ''xml'')"
    if "startswith d (bytes_of ''<?xml'')"
    using lift [OF that] by (simp add: tt bytes_of_def str_def)
  show "text_type d = Some (str ''application/json'', str ''json'')"
    if "startswith d (bytes_of ''{'') \<or> startswith d (bytes_of ''['')"
  proof -
    from that have "startswith t (str ''{'') \<or> startswith t (str ''['')"
      using lift [of "''{''"] lift [of "''[''"] by (auto simp: bytes_of_def str_def)
    then show ?thesis
      by (auto simp: tt str_def startswith_Cons_iff)
  qed
  show "text_type d = Some (str ''text/html'', str ''html'')"
    if "startswith d (bytes_of ''<html'') \<or> startswith d (bytes_of ''<!DOCTYPE'')"
  proof -
    from that have "startswith t (str ''<html'') \<or> startswith t (str ''<!DOCTYPE'')"
      using lift [of "''<html''"] lift [of "''<!DOCTYPE''"] by (auto simp: bytes_of_def str_def)
    then show ?thesis
      by (auto simp: tt str_def startswith_Cons_iff)
  qed
  show "text_type d = Some (str ''application/x-httpd-php'', str ''php'')"
    if "startswith d (bytes_of ''<?php'')"
  proof -
    from that have "startswith t (str ''<?php'')"
      using lift [of "''<?php''"] by (auto simp: bytes_of_def str_def)
    then show ?thesis
      by (auto simp: tt str_def startswith_Cons_iff)
  qed
  show "text_type d = Some (str ''text/plain'', str ''txt'')"
    if "startswith d (bytes_of ''#!/'')"
  proof -
    from that have "startswith t (str ''#!/'')"
      using lift [of "''#!/''"] by (auto simp: bytes_of_def str_def)
    then show ?thesis
      by (auto simp: tt str_def startswith_Cons_iff)
  qed
qed

text \<open>
  C5. When the argument does not start with \<^verbatim>\<open>data:\<close> and its decoded bytes match no
  entry of the signature table, the result is decided by the text of the first 100
  bytes, decoded as UTF-8 with errors ignored: with fewer than four bytes the generic
  result; otherwise \<^verbatim>\<open><?xml\<close> gives XML, then \<^verbatim>\<open>{\<close> or \<^verbatim>\<open>[\<close> JSON, then \<^verbatim>\<open><html\<close> or
  \<^verbatim>\<open><!DOCTYPE\<close> HTML, then \<^verbatim>\<open><?php\<close> PHP, then \<^verbatim>\<open>#!/\<close> plain text, in this order, and
  the generic result when none matches. In particular a buffer of at least four bytes
  whose bytes start with one of these prefixes gets the type of that prefix.
\<close>

theorem text_heuristic_order:
  assumes "b64decode s False = Inr d"
    and "\<not> startswith s (str ''data:'')"
    and "list_all (\<lambda>sig. \<not> startswith d sig) (map fst file_signature_entries)"
  shows "detect_file_type s =
          (let text_start = utf8_decode_ignore (take 100 d) in
           if length d < 4 then (str ''application/octet-stream'', str ''bin'')
           else if startswith text_start (str ''<?xml'') then (str ''application/xml'', str ''xml'')
           else if startswith text_start (str ''{'') \<or> startswith text_start (str ''['')
             then (str ''application/json'', str ''json'')
           else if startswith text_start (str ''<html'') \<or> startswith text_start (str ''<!DOCTYPE'')
             then (str ''text/html'', str ''html'')
           else if startswith text_start (str ''<?php'')
             then (str ''application/x-httpd-php'', str ''php'')
           else if startswith text_start (str ''#!/'') then (str ''text/plain'', str ''txt'')
           else (str ''application/octet-stream'', str ''bin''))
        \<and> (4 \<le> length d \<longrightarrow>
             (startswith d (bytes_of ''<?xml'')
                \<longrightarrow> detect_file_type s = (str ''application/xml'', str ''xml''))
           \<and> (startswith d (bytes_of ''{'') \<or> startswith d (bytes_of ''['')
                \<longrightarrow> detect_file_type s = (str ''application/json'', str ''json''))
           \<and> (startswith d (bytes_of ''<html'') \<or> startswith d (bytes_of ''<!DOCTYPE'')
                \<longrightarrow> detect_file_type s = (str ''text/html'', str ''html''))
           \<and> (startswith d (bytes_of ''<?php'')
                \<longrightarrow> detect_file_type s = (str ''application/x-httpd-php'', str ''php''))
           \<and> (startswith d (bytes_of ''#!/'')
                \<longrightarrow> detect_file_type s = (str ''text/plain'', str ''txt'')))"
proof -
  have none: "match_signature d file_signatures = None"
    using assms(3) by (simp only: no_signature_iff)
  have base: "detect_file_type s = (case text_type d of Some r \<Rightarrow> r | None \<Rightarrow> generic_binary)"
    using detect_without_data_url [OF assms(1)] assms(2) none by simp
  have cascade: "detect_file_type s =
          (let text_start = utf8_decode_ignore (take 100 d) in
           if length d < 4 then (str ''application/octet-stream'', str ''bin'')
           else if startswith text_start (str ''<?xml'') then (str ''application/xml'', str ''xml'')
           else if startswith text_start (str ''{'') \<or> startswith text_start (str ''['')
             then (str ''application/json'', str ''json'')
           else if startswith text_start (str ''<html'') \<or> startswith text_start (str ''<!DOCTYPE'')
             then (str ''text/html'', str ''html'')
           else if startswith text_start (str ''<?php'')
             then (str ''application/x-httpd-php'', str ''php'')
           else if startswith text_start (str ''#!/'') then (str ''text/plain'', str ''txt'')
           else (str ''application/octet-stream'', str ''bin''))"
    unfolding base by (simp add: text_type_def generic_binary_def Let_def)
  have bytes: "detect_file_type s = r" if "text_type d = Some r" for r
    using that by (simp add: base)
  show ?thesis
    using cascade text_type_by_bytes [of d, THEN bytes] by blast
qed

text \<open>The base64 text \<^verbatim>\<open>eyJhIjoxfQ==\<close> is \<^verbatim>\<open>{"a":1}\<close>.\<close>

theorem text_heuristic_order_witness:
  "b64decode (str ''eyJhIjoxfQ=='') False = Inr (bytes_of ''{\"a\":1}'')
   \<and> \<not> startswith (str ''eyJhIjoxfQ=='') (str ''data:'')
   \<and> list_all (\<lambda>sig. \<not> startswith (bytes_of ''{\"a\":1}'') sig) (map fst file_signature_entries)
   \<and> 4 \<le> length (bytes_of ''{\"a\":1}'')
   \<and> startswith (bytes_of ''{\"a\":1}'') (bytes_of ''{'')
   \<and> detect_file_type (str ''eyJhIjoxfQ=='') = (str ''application/json'', str ''json'')"
proof -
  have d: "b64decode (str ''eyJhIjoxfQ=='') False = Inr (bytes_of ''{\"a\":1}'')"
    by (simp add: b64_eval bytes_of_def)
  have p: "\<not> startswith (str ''eyJhIjoxfQ=='') (str ''data:'')"
    by (simp add: str_def)
  have n: "list_all (\<lambda>sig. \<not> startswith (bytes_of ''{\"a\":1}'') sig) (map fst file_signature_entries)"
    by (simp add: file_signature_entries_def bytes_of_def)
  have l: "4 \<le> length (bytes_of ''{\"a\":1}'')"
    by (simp add: bytes_of_def)
  have j: "startswith (bytes_of ''{\"a\":1}'') (bytes_of ''{'')"
    by (simp add: bytes_of_def)
  from text_heuristic_order [OF d p n] l j
  have "detect_file_type (str ''eyJhIjoxfQ=='') = (str ''application/json'', str ''json'')"
    by blast
  with d p n l j show ?thesis by simp
qed

text \<open>
  C10, as the code has it. Let the decoded bytes be at least four, match no signature,
  and begin with a run \<open>bad\<close> of fewer than 100 bytes that the decoder drops entirely,
  followed by \<^verbatim>\<open>{\<close>. Then the detector answers JSON although the first byte is not
  \<^verbatim>\<open>{\<close>. The bound is that of the slice \<^verbatim>\<open>decoded_data[:100]\<close> in line 81.
\<close>

theorem invalid_utf8_dropped_before_json:
  assumes "b64decode s False = Inr d"
    and "\<not> startswith s (str ''data:'')"
    and "list_all (\<lambda>sig. \<not> startswith d sig) (map fst file_signature_entries)"
    and "4 \<le> length d"
    and "d = bad @ 0x7B # rest"
    and "bad \<noteq> []"
    and "utf8_decode_ignore bad = []"
    and "length bad < 100"
  shows "detect_file_type s = (str ''application/json'', str ''json'') \<and> hd d \<noteq> 0x7B"
proof -
  have none: "match_signature d file_signatures = None"
    using assms(3) by (simp only: no_signature_iff)
  have base: "detect_file_type s = (case text_type d of Some r \<Rightarrow> r | None \<Rightarrow> generic_binary)"
    using detect_without_data_url [OF assms(1)] assms(2) none by simp
  have "take 100 d = bad @ 0x7B # take (99 - length bad) rest"
  proof -
    have "100 - length bad = Suc (99 - length bad)" using assms(8) by arith
    then show ?thesis using assms(8) by (simp add: assms(5))
  qed
  then have "utf8_decode_ignore (take 100 d)
               = 123 # utf8_decode_ignore (take (99 - length bad) rest)"
    using utf8_decode_append_ascii [of "0x7B" bad] assms(7) by simp
  then have "text_type d = Some (str ''application/json'', str ''json'')"
    using assms(4) by (simp add: text_type_def str_def)
  moreover have "hd d \<noteq> 0x7B"
  proof -
    from assms(6) obtain b bs where bad: "bad = b # bs" by (cases bad) auto
    with assms(7) have "\<not> b < 0x80" using utf8_dropped_head by blast
    then have "b \<noteq> 0x7B" by auto
    then show ?thesis by (simp add: assms(5) bad)
  qed
  ultimately show ?thesis by (simp add: base)
qed

text \<open>The base64 text \<^verbatim>\<open>gIB7fQ==\<close> is the bytes 80 80 7B 7D.\<close>

theorem invalid_utf8_dropped_before_json_witness:
  "b64decode (str ''gIB7fQ=='') False = Inr [0x80, 0x80, 0x7B, 0x7D]
   \<and> \<not> startswith (str ''gIB7fQ=='') (str ''data:'')
   \<and> list_all (\<lambda>sig. \<not> startswith [0x80, 0x80, 0x7B, 0x7D] sig) (map fst file_signature_entries)
   \<and> utf8_decode_ignore [0x80, 0x80] = []
   \<and> detect_file_type (str ''gIB7fQ=='') = (str ''application/json'', str ''json'')
   \<and> hd [0x80, 0x80, 0x7B, 0x7D :: byte] \<noteq> 0x7B"
proof -
  have d: "b64decode (str ''gIB7fQ=='') False = Inr [0x80, 0x80, 0x7B, 0x7D]"
    by (simp add: b64_eval)
  have p: "\<not> startswith (str ''gIB7fQ=='') (str ''data:'')"
    by (simp add: str_def)
  have n: "list_all (\<lambda>sig. \<not> startswith [0x80, 0x80, 0x7B, 0x7D] sig)
             (map fst file_signature_entries)"
    by (simp add: file_signature_entries_def)
  have u: "utf8_decode_ignore [0x80, 0x80] = []"
    by (simp add: utf8_decode_ignore.simps(2) utf8_step_def)
  have l: "4 \<le> length [0x80, 0x80, 0x7B, 0x7D :: byte]"
    by simp
  have e: "[0x80, 0x80, 0x7B, 0x7D :: byte] = [0x80, 0x80] @ 0x7B # [0x7D]"
    by simp
  have ne: "[0x80, 0x80 :: byte] \<noteq> []"
    by simp
  have lt: "length [0x80, 0x80 :: byte] < 100"
    by simp
  from invalid_utf8_dropped_before_json [OF d p n l e ne u lt] d p n u
  show ?thesis by simp
qed

text \<open>
  Against C10 as stated: one hundred bytes 80 and then \<^verbatim>\<open>{\<close>. The brace is the 101st
  byte, outside the slice, the decoded text is empty and the result is generic.
\<close>

theorem hundred_invalid_bytes_counterexample:
  "b64decode (concat (replicate 33 (str ''gICA'')) @ str ''gHs='') False
     = Inr (replicate 100 0x80 @ [0x7B])
   \<and> \<not> startswith (concat (replicate 33 (str ''gICA'')) @ str ''gHs='') (str ''data:'')
   \<and> match_signature (replicate 100 0x80 @ [0x7B]) file_signatures = None
   \<and> 4 \<le> length (replicate 100 (0x80 :: byte) @ [0x7B])
   \<and> utf8_decode_ignore (replicate 100 0x80) = []
   \<and> detect_file_type (concat (replicate 33 (str ''gICA'')) @ str ''gHs='')
       = (str ''application/octet-stream'', str ''bin'')"
proof -
  have d: "b64decode (concat (replicate 33 (str ''gICA'')) @ str ''gHs='') False
             = Inr (replicate 100 0x80 @ [0x7B])"
    by code_simp
  have p: "\<not> startswith (concat (replicate 33 (str ''gICA'')) @ str ''gHs='') (str ''data:'')"
    by code_simp
  have r: "replicate 100 (0x80 :: byte) = 0x80 # replicate 99 0x80"
    by (simp add: numeral_eq_Suc)
  have m: "match_signature (replicate 100 0x80 @ [0x7B]) file_signatures = None"
    unfolding r by (simp add: file_signatures_eq)
  have t: "text_type (replicate 100 0x80 @ [0x7B]) = None"
    by (simp add: text_type_def utf8_invalid_run str_def)
  have "detect_file_type (concat (replicate 33 (str ''gICA'')) @ str ''gHs='') = generic_binary"
    using detect_without_data_url [OF d] p m t by simp
  with d p m show ?thesis by (simp add: utf8_invalid_run generic_binary_def)
qed

section \<open>The request handler\<close>

lemmas request_eval = clean_base64_def split1_def item_def

text \<open>
  Once a string has been handed to the strict decoder (the request's data with a
  data-URL prefix cut off), a failure to decode it, or a result of no bytes, makes the
  handler raise an \<^verbatim>\<open>HTTPException\<close> with status 400; no call to the detector, to the
  acceptance table or to \<^verbatim>\<open>save_temp_file\<close> has been made, the file system is unchanged
  and there is no response.
\<close>

lemma rejected_payload_is_400:
  assumes "clean_base64 (base64_data request) = Inr payload"
    and "(\<exists>e. b64decode payload True = Inl e) \<or> b64decode payload True = Inr []"
  shows "process_document env fs request =
           ([], fs, Inl (HTTPException 400
              (case b64decode payload True of
                 Inl e \<Rightarrow> InvalidBase64 e
               | Inr decoded_data \<Rightarrow> EmptyFileData)))"
  using assms by (auto simp: process_document_def)

lemma rejected_payload_is_400_examples:
  "clean_base64 (base64_data bad_request) = Inr (str ''JVBERi0x*jQ='')
   \<and> b64decode (str ''JVBERi0x*jQ='') True = Inl OnlyBase64
   \<and> process_document example_env Map.empty bad_request
       = ([], Map.empty, Inl (HTTPException 400 (InvalidBase64 OnlyBase64)))
   \<and> clean_base64 (base64_data empty_request) = Inr []
   \<and> b64decode [] True = Inr []
   \<and> process_document example_env Map.empty empty_request
       = ([], Map.empty, Inl (HTTPException 400 EmptyFileData))"
proof -
  have c: "clean_base64 (base64_data bad_request) = Inr (str ''JVBERi0x*jQ='')"
    by (simp add: bad_request_def request_eval str_def)
  have e: "b64decode (str ''JVBERi0x*jQ='') True = Inl OnlyBase64"
    by (simp add: b64_eval)
  have c': "clean_base64 (base64_data empty_request) = Inr []"
    by (simp add: empty_request_def request_eval str_def)
  have e': "b64decode [] True = Inr []"
    by (simp add: b64_eval)
  from e have h: "(\<exists>e. b64decode (str ''JVBERi0x*jQ='') True = Inl e)
                  \<or> b64decode (str ''JVBERi0x*jQ='') True = Inr []"
    by simp
  from e' have h': "(\<exists>e. b64decode [] True = Inl e) \<or> b64decode [] True = Inr []"
    by simp
  from rejected_payload_is_400 [OF c h, of example_env Map.empty]
       rejected_payload_is_400 [OF c' h', of example_env Map.empty]
       c e c' e'
  show ?thesis by simp
qed

text \<open>
  The stripping of line 152 stands before the decoder and outside its \<^verbatim>\<open>try\<close>. Data that
  starts with \<^verbatim>\<open>data:\<close> is never valid base64, since the colon is not in the alphabet.
  When such data has no comma, \<^verbatim>\<open>split(',', 1)\<close> has one piece, the index 1 raises
  \<^verbatim>\<open>IndexError\<close>, and line 233 turns it into status 500.
\<close>

lemma data_prefix_fails_strict:
  assumes "startswith s (str ''data:'')"
  shows "b64decode s True = Inl NonAscii \<or> b64decode s True = Inl OnlyBase64"
proof -
  from assms obtain r where s: "s = str ''data:'' @ r"
    by (auto simp: startswith_append_iff)
  show ?thesis
    unfolding s by (simp add: b64_eval)
qed

lemma no_comma_is_500:
  assumes "startswith (base64_data request) (str ''data:'')"
    and "of_char CHR '','' \<notin> set (base64_data request)"
  shows "clean_base64 (base64_data request) = Inl IndexError"
    and "process_document env fs request
           = ([], fs, Inl (HTTPException 500 InternalServerError))"
proof -
  show c: "clean_base64 (base64_data request) = Inl IndexError"
    using assms by (simp add: request_eval)
  show "process_document env fs request
          = ([], fs, Inl (HTTPException 500 InternalServerError))"
    by (simp add: process_document_def c)
qed

text \<open>
  C7, at a request the code answers otherwise. The data
  \<^verbatim>\<open>data:application/pdf;base64JVBERi0xLjQ=\<close> is a data URL whose comma is missing. It
  is not valid base64 under strict validation, so the claim asks for status 400. The
  handler makes no call to the detector, to the table or to \<^verbatim>\<open>save_temp_file\<close> and gives
  no response, as claimed, but the status it raises is 500: the decoder that would
  have answered 400 is never reached.
\<close>

theorem data_url_without_comma_is_500:
  "startswith (base64_data nocomma_request) (str ''data:'')
   \<and> b64decode (base64_data nocomma_request) True = Inl OnlyBase64
   \<and> clean_base64 (base64_data nocomma_request) = Inl IndexError
   \<and> process_document example_env Map.empty nocomma_request
       = ([], Map.empty, Inl (HTTPException 500 InternalServerError))
   \<and> process_document example_env Map.empty nocomma_request
       \<noteq> ([], Map.empty, Inl (HTTPException 400 (InvalidBase64 OnlyBase64)))"
proof -
  have p: "startswith (base64_data nocomma_request) (str ''data:'')"
    by (simp add: nocomma_request_def str_def)
  have n: "of_char CHR '','' \<notin> set (base64_data nocomma_request)"
    by (simp add: nocomma_request_def str_def)
  have d: "b64decode (base64_data nocomma_request) True = Inl OnlyBase64"
    by (simp add: nocomma_request_def b64_eval)
  have r: "process_document example_env Map.empty nocomma_request
             = ([], Map.empty, Inl (HTTPException 500 InternalServerError))"
    using p n by (rule no_comma_is_500(2))
  show ?thesis
    using p d no_comma_is_500(1) [OF p n] r by simp
qed

lemma pdf_payload_clean:
  "clean_base64 (base64_data pdf_request) = Inr (str ''JVBERi0xLjQ='')"
  by (simp add: pdf_request_def request_eval str_def)

lemma pdf_payload_strict:
  "b64decode (str ''JVBERi0xLjQ='') True = Inr (bytes_of ''%PDF-1.4'')"
  by (simp add: b64_eval bytes_of_def)

lemma pdf_payload_detect:
  "detect_file_type (str ''JVBERi0xLjQ='') = (str ''application/pdf'', str ''pdf'')"
proof -
  have d: "b64decode (str ''JVBERi0xLjQ='') False = Inr (bytes_of ''%PDF-1.4'')"
    by (simp add: b64_eval bytes_of_def)
  have p: "\<not> (startswith (str ''JVBERi0xLjQ='') (str ''data:'')
               \<and> of_char CHR '','' \<in> set (str ''JVBERi0xLjQ=''))"
    by (simp add: str_def)
  have "startswith (bytes_of ''%PDF-1.4'') [0x25, 0x50, 0x44, 0x46]"
    by (simp add: bytes_of_def)
  then show ?thesis
    by (simp add: detect_without_data_url [OF d p] pdf_match)
qed

lemma pdf_verdict:
  "classify (str ''application/pdf'') = (str ''accepted'', 0.95, str ''PDF document - Accepted'')"
  using accepted_lookup_Some [of "str ''application/pdf''" "0.95" "str ''PDF document - Accepted''"]
  by (simp add: classify_def accepted_type_entries_def)

lemma pdf_request_ids:
  "record_id pdf_request = IdInt 42" "document_id pdf_request = IdStr (str ''doc-7'')"
  by (simp_all add: pdf_request_def)

lemma pdf_request_served:
  assumes "writable env = always_writable"
  shows "snd (snd (process_document env fs pdf_request)) = Inr pdf_response"
proof -
  have "bytes_of ''%PDF-1.4'' \<noteq> []" by (simp add: bytes_of_def)
  then show ?thesis
    using assms
    by (simp add: process_document_def pdf_payload_clean pdf_payload_strict pdf_payload_detect
          pdf_verdict save_temp_file_def Let_def always_writable_def pdf_response_def
          pdf_request_ids)
qed




text \<open>
  C9. Detection and verdict do not depend on anything but the request: in any two
  environments and file systems the handler makes the same calls with the same
  arguments (the detected type and extension among them), and two responses to the
  same request are equal. The detector and the verdict are functions of their
  argument; the tables are rebuilt from literals on every call and nothing is read
  from outside.
\<close>

theorem detection_ignores_environment:
  "fst (process_document env1 fs1 request) = fst (process_document env2 fs2 request)
   \<and> (\<forall>r1 r2. snd (snd (process_document env1 fs1 request)) = Inr r1
              \<and> snd (snd (process_document env2 fs2 request)) = Inr r2 \<longrightarrow> r1 = r2)"
  by (auto simp: process_document_def Let_def split: prod.splits sum.splits)

theorem detection_ignores_environment_witness:
  "snd (snd (process_document example_env Map.empty pdf_request)) = Inr pdf_response
   \<and> snd (snd (process_document other_env [str ''/tmp/x'' \<mapsto> [0x00]] pdf_request)) = Inr pdf_response
   \<and> fst (process_document example_env Map.empty pdf_request)
       = fst (process_document other_env [str ''/tmp/x'' \<mapsto> [0x00]] pdf_request)"
proof -
  have one: "snd (snd (process_document example_env Map.empty pdf_request)) = Inr pdf_response"
    by (rule pdf_request_served) (simp add: example_env_def)
  have two: "snd (snd (process_document other_env [str ''/tmp/x'' \<mapsto> [0x00]] pdf_request))
               = Inr pdf_response"
    by (rule pdf_request_served) (simp add: other_env_def)
  from detection_ignores_environment
         [of example_env Map.empty pdf_request other_env "[str ''/tmp/x'' \<mapsto> [0x00]]"] one two
  show ?thesis by simp
qed

end
